theory Spec2Isabelle
  imports Complex_Main "HOL-Library.AList"
begin

section \<open>Data model (models.py, exceptions.py, config.py)\<close>

text \<open>
  Enumerations are datatypes; the constructors carry a short prefix where two Python
  enums share a member name.  Prices are Python floats in the source; they are modelled
  as exact rationals, so every comparison and product below is the exact one.
\<close>

datatype ProcessCompaniesMode = ADDITIONAL_ONLY | PRIMARY_ONLY | BOTH

datatype ProductNameFormat = COMPANY_NAME | COMPANY_NAME_WITH_PREFIX | CUSTOM_FORMAT

datatype ValueCalculationMode = VCM_W2_COUNT | W2_COUNT_TIMES_PRICE | FIXED_PRICE

datatype QuantityMode = QM_W2_COUNT | ALWAYS_ONE | CUSTOM

datatype DuplicateAction = DA_UPDATE | DA_SKIP | DA_ERROR | FORCE_NEW

datatype W2ChangeAction = UPDATE_QUANTITY | UPDATE_PRICE | UPDATE_BOTH | W2_SKIP

datatype LinkStatus =
  SUCCESS | UPDATED | SKIPPED | NO_DEAL_ID | NO_COMPANIES | ORPHANED | FAILED_ERROR

datatype ProductActionType =
  CREATED_CATALOG | FOUND_CATALOG | ATTACHED_NEW | UPDATED_QUANTITY | UPDATED_PRICE
  | SKIPPED_EXISTS | ERROR

text \<open>\<open>ProductActionType\<close> is a \<open>str\<close>-mixin enum: a member is truthy iff its value is
  a non-empty string.\<close>

fun action_value :: "ProductActionType \<Rightarrow> string" where
  "action_value CREATED_CATALOG = ''created_catalog''"
| "action_value FOUND_CATALOG = ''found_catalog''"
| "action_value ATTACHED_NEW = ''attached_new''"
| "action_value UPDATED_QUANTITY = ''updated_quantity''"
| "action_value UPDATED_PRICE = ''updated_price''"
| "action_value SKIPPED_EXISTS = ''skipped_exists''"
| "action_value ERROR = ''error''"

record AdditionalCompany =
  company_legal_name :: string
  w2_employee_count :: "int option"

record Submission =
  sub_id :: string
  deal_id :: "int option"
  primary_company :: "AdditionalCompany option"
  additional_companies :: "AdditionalCompany list"

record PipedriveProduct =
  p_id :: int
  p_name :: string
  p_code :: "string option"
  active_flag :: bool

record DealProductAttachment =
  a_id :: int
  product_id :: int
  a_deal_id :: int
  item_price :: rat
  quantity :: int
  a_sum :: rat
  a_name :: string
  comments :: "string option"

record ProductAction =
  company_name :: string
  w2_count :: "int option"
  action_type :: ProductActionType
  act_product_id :: "int option"
  attachment_id :: "int option"
  old_quantity :: "int option"
  new_quantity :: "int option"
  old_price :: "rat option"
  new_price :: "rat option"
  error_message :: "string option"

record LinkResult =
  submission_id :: string
  res_deal_id :: "int option"
  status :: LinkStatus
  companies_processed :: nat
  actions :: "ProductAction list"
  total_value_added :: rat
  res_error_message :: "string option"

record Deal =
  d_id :: int
  title :: string
  d_value :: "rat option"
  stage_id :: int
  pipeline_id :: int
  org_id :: "int option"

record Config =
  pipedrive_api_key :: string
  base_url :: string
  process_companies :: ProcessCompaniesMode
  product_name_format :: ProductNameFormat
  product_name_prefix :: string
  value_calculation_mode :: ValueCalculationMode
  item_price_per_employee :: rat
  fixed_product_price :: rat
  quantity_mode :: QuantityMode
  custom_quantity :: int
  duplicate_attachment_action :: DuplicateAction
  w2_change_action :: W2ChangeAction
  auto_create_products :: bool
  product_visible_to :: int
  product_active_flag :: bool
  skip_orphaned_deals :: bool
  skip_missing_w2 :: bool
  skip_zero_w2 :: bool
  min_w2_count :: int
  max_w2_count :: int

text \<open>
  Exceptions are values.  \<open>APIError\<close> and its subclass \<open>RateLimitError\<close> carry the
  message and the optional status code; \<open>Timeout\<close>, \<open>HTTPError\<close> and
  \<open>RequestException\<close> are the exceptions of the HTTP library (the first two are
  subclasses of the third); \<open>OtherException\<close> stands for the \<open>KeyError\<close>,
  \<open>TypeError\<close> or \<open>AttributeError\<close> that a payload of the wrong shape raises.
\<close>

datatype error =
  APIError string "nat option"
  | RateLimitError string "nat option"
  | OrphanedDealError string int string
  | Timeout
  | HTTPError nat string
  | RequestException string
  | OtherException string

fun isinstance_APIError :: "error \<Rightarrow> bool" where
  "isinstance_APIError (APIError m c) = True"
| "isinstance_APIError (RateLimitError m c) = True"
| "isinstance_APIError e = False"

fun isinstance_RequestException :: "error \<Rightarrow> bool" where
  "isinstance_RequestException Timeout = True"
| "isinstance_RequestException (HTTPError c m) = True"
| "isinstance_RequestException (RequestException m) = True"
| "isinstance_RequestException e = False"

fun str_error :: "error \<Rightarrow> string" where
  "str_error (APIError m c) = m"
| "str_error (RateLimitError m c) = m"
| "str_error (OrphanedDealError m d i) = m"
| "str_error Timeout = ''timeout''"
| "str_error (HTTPError c m) = m"
| "str_error (RequestException m) = m"
| "str_error (OtherException m) = m"

section \<open>Strings\<close>

definition digit_char :: "nat \<Rightarrow> char" where
  "digit_char n = ''0123456789'' ! n"

fun str_nat :: "nat \<Rightarrow> string" where
  "str_nat n = (if n < 10 then [digit_char n] else str_nat (n div 10) @ [digit_char (n mod 10)])"

definition str_int :: "int \<Rightarrow> string" where
  "str_int i = (if i < 0 then CHR ''-'' # str_nat (nat (- i)) else str_nat (nat i))"

definition is_space :: "char \<Rightarrow> bool" where
  "is_space c = (c = CHR '' '' \<or> ((9::nat) \<le> of_char c \<and> (of_char c :: nat) \<le> 13))"

definition rstrip_ws :: "string \<Rightarrow> string" where
  "rstrip_ws s = rev (dropWhile is_space (rev s))"

definition strip :: "string \<Rightarrow> string" where
  "strip s = rstrip_ws (dropWhile is_space s)"

definition rstrip_dot :: "string \<Rightarrow> string" where
  "rstrip_dot s = rev (dropWhile (\<lambda>c. c = CHR ''.'') (rev s))"

section \<open>Remote gateway (pipedrive_client.py)\<close>

datatype http_method = GET | POST | PUT | DELETE

text \<open>The JSON bodies the client sends: \<open>product_data\<close>, \<open>attachment_data\<close> and
  \<open>update_data\<close>; an optional field of the dictionary is an option.\<close>

datatype json_body =
  ProductBody string bool int "string option"
  | AttachBody int rat int "string option"
  | UpdateBody "rat option" "int option" "string option"

record request =
  req_method :: http_method
  req_url :: string
  req_params :: "(string \<times> string) list"
  req_json :: "json_body option"

text \<open>The \<open>data\<close> member of a decoded response, by shape: absent, the dictionary of a
  deal, of a product or of an attachment, a list of attachment dictionaries, or the
  dictionary of a search result with its \<open>items\<close>.\<close>

datatype json_data =
  JAbsent
  | JDeal Deal
  | JProduct PipedriveProduct
  | JAttachment DealProductAttachment
  | JAttachmentList "DealProductAttachment list"
  | JSearchItems "PipedriveProduct list"

record api_response =
  success :: bool
  data :: json_data

record http_response =
  status_code :: nat
  reason :: string
  body :: api_response

text \<open>One call of \<open>session.request\<close> either answers, times out, or fails in transport.\<close>

datatype attempt = Responded http_response | TimedOut | Failed string

type_synonym 'w transport = "'w \<Rightarrow> request \<Rightarrow> attempt \<times> 'w"

text \<open>
  The client object: its call counter, and the remote world it talks to.  \<open>slept\<close>
  logs the arguments of \<open>time.sleep\<close> and \<open>sent\<close> the requests handed to
  \<open>session.request\<close>, in order.
\<close>

record 'w client =
  api_call_count :: nat
  slept :: "nat list"
  sent :: "request list"
  world :: 'w

definition sleep :: "nat \<Rightarrow> 'w client \<Rightarrow> 'w client" where
  "sleep seconds s = s\<lparr>slept := slept s @ [seconds]\<rparr>"

text \<open>\<open>response.raise_for_status()\<close> raises \<open>HTTPError\<close> for 4xx and 5xx.\<close>

definition http_error_text :: "http_response \<Rightarrow> request \<Rightarrow> string" where
  "http_error_text response req =
     str_nat (status_code response)
     @ (if status_code response < 500 then '' Client Error: '' else '' Server Error: '')
     @ reason response @ '' for url: '' @ req_url req"

definition raise_for_status :: "http_response \<Rightarrow> request \<Rightarrow> error option" where
  "raise_for_status response req =
     (if 400 \<le> status_code response \<and> status_code response < 600
      then Some (HTTPError (status_code response) (http_error_text response req))
      else None)"

text \<open>A response passes when it is neither a 429 nor an error for
  \<open>raise_for_status\<close>.\<close>

definition passes :: "http_response \<Rightarrow> bool" where
  "passes response =
     (status_code response \<noteq> 429 \<and> \<not> (400 \<le> status_code response \<and> status_code response < 600))"

datatype try_result = Return api_response | Continue | Raise error

text \<open>The body of the \<open>try\<close> block of \<open>_make_request\<close>, for one attempt.\<close>

definition try_body ::
  "'w transport \<Rightarrow> request \<Rightarrow> nat \<Rightarrow> nat \<Rightarrow> 'w client \<Rightarrow> try_result \<times> 'w client" where
  "try_body tr req max_retries attempt s =
     (let s1 = s\<lparr>api_call_count := api_call_count s + 1, sent := sent s @ [req]\<rparr>;
          (outcome, w) = tr (world s1) req;
          s2 = s1\<lparr>world := w\<rparr>
      in case outcome of
           TimedOut \<Rightarrow> (Raise Timeout, s2)
         | Failed msg \<Rightarrow> (Raise (RequestException msg), s2)
         | Responded response \<Rightarrow>
             if status_code response = 429 then
               if int attempt < int max_retries - 1
               then (Continue, sleep (2 ^ attempt) s2)
               else (Raise (RateLimitError ''Rate limit exceeded after retries'' (Some 429)), s2)
             else
               (case raise_for_status response req of
                  Some e \<Rightarrow> (Raise e, s2)
                | None \<Rightarrow> (Return (body response), s2)))"

text \<open>The \<open>for attempt in range(max_retries)\<close> loop with its \<open>except\<close> clauses, in
  the source's order: \<open>Timeout\<close> first, then any \<open>RequestException\<close>; every other
  exception propagates.\<close>

fun request_loop ::
  "'w transport \<Rightarrow> request \<Rightarrow> nat \<Rightarrow> nat list \<Rightarrow> 'w client
     \<Rightarrow> (error + api_response) \<times> 'w client" where
  "request_loop tr req max_retries [] s =
     (Inl (APIError ''Unexpected error in request handling'' None), s)"
| "request_loop tr req max_retries (attempt # rest) s =
     (case try_body tr req max_retries attempt s of
        (Return b, s') \<Rightarrow> (Inr b, s')
      | (Continue, s') \<Rightarrow> request_loop tr req max_retries rest s'
      | (Raise e, s') \<Rightarrow>
          if e = Timeout then
            if int attempt < int max_retries - 1
            then request_loop tr req max_retries rest (sleep (1 * (attempt + 1)) s')
            else (Inl (APIError ''Request timeout after retries'' None), s')
          else if isinstance_RequestException e then
            if int attempt < int max_retries - 1
            then request_loop tr req max_retries rest (sleep (1 * (attempt + 1)) s')
            else (Inl (APIError (''Request failed: '' @ str_error e) None), s')
          else (Inl e, s'))"

definition build_request ::
  "Config \<Rightarrow> http_method \<Rightarrow> string \<Rightarrow> (string \<times> string) list \<Rightarrow> json_body option \<Rightarrow> request" where
  "build_request cfg method endpoint params json_data =
     \<lparr>req_method = method,
      req_url = base_url cfg @ ''/'' @ endpoint,
      req_params = AList.update ''api_token'' (pipedrive_api_key cfg) params,
      req_json = json_data\<rparr>"

definition make_request ::
  "'w transport \<Rightarrow> Config \<Rightarrow> http_method \<Rightarrow> string \<Rightarrow> (string \<times> string) list
     \<Rightarrow> json_body option \<Rightarrow> nat \<Rightarrow> 'w client \<Rightarrow> (error + api_response) \<times> 'w client" where
  "make_request tr cfg method endpoint params json_data max_retries s =
     request_loop tr (build_request cfg method endpoint params json_data)
       max_retries [0..<max_retries] s"

subsection \<open>Client operations\<close>

text \<open>
  Each operation calls \<open>make_request\<close> with the default budget of 3 and decodes the
  answer.  \<open>falsy\<close> is Python's truth test on the \<open>data\<close> member.  The three
  \<open>_parse_...\<close> helpers read \<open>raw["id"]\<close> and take every other member with
  \<open>get\<close> and a default: given a dictionary of another shape they still build their
  object from the members the two shapes share (\<open>id\<close>, and \<open>name\<close> between products
  and attachments); without an \<open>id\<close>, or on a list, they raise.
\<close>

fun parse_product :: "json_data \<Rightarrow> error + PipedriveProduct" where
  "parse_product (JProduct p) = Inr p"
| "parse_product (JDeal d) =
     Inr \<lparr>p_id = d_id d, p_name = [], p_code = None, active_flag = True\<rparr>"
| "parse_product (JAttachment a) =
     Inr \<lparr>p_id = a_id a, p_name = a_name a, p_code = None, active_flag = True\<rparr>"
| "parse_product (JAttachmentList xs) =
     Inl (OtherException ''TypeError: list indices must be integers'')"
| "parse_product d = Inl (OtherException ''KeyError: id'')"

fun parse_deal :: "json_data \<Rightarrow> error + Deal" where
  "parse_deal (JDeal d) = Inr d"
| "parse_deal (JProduct p) =
     Inr \<lparr>d_id = p_id p, title = [], d_value = None, stage_id = 0, pipeline_id = 0,
          org_id = None\<rparr>"
| "parse_deal (JAttachment a) =
     Inr \<lparr>d_id = a_id a, title = [], d_value = None, stage_id = 0, pipeline_id = 0,
          org_id = None\<rparr>"
| "parse_deal (JAttachmentList xs) =
     Inl (OtherException ''TypeError: list indices must be integers'')"
| "parse_deal d = Inl (OtherException ''KeyError: id'')"

fun parse_deal_product_attachment :: "json_data \<Rightarrow> error + DealProductAttachment" where
  "parse_deal_product_attachment (JAttachment a) = Inr a"
| "parse_deal_product_attachment (JDeal d) =
     Inr \<lparr>a_id = d_id d, product_id = 0, a_deal_id = 0, item_price = 0, quantity = 0,
          a_sum = 0, a_name = [], comments = None\<rparr>"
| "parse_deal_product_attachment (JProduct p) =
     Inr \<lparr>a_id = p_id p, product_id = 0, a_deal_id = 0, item_price = 0, quantity = 0,
          a_sum = 0, a_name = p_name p, comments = None\<rparr>"
| "parse_deal_product_attachment (JAttachmentList xs) =
     Inl (OtherException ''TypeError: list indices must be integers'')"
| "parse_deal_product_attachment d = Inl (OtherException ''KeyError: id'')"

definition falsy :: "json_data \<Rightarrow> bool" where
  "falsy d = (d = JAbsent \<or> d = JAttachmentList [])"

definition truthy_str :: "string option \<Rightarrow> bool" where
  "truthy_str v = (case v of None \<Rightarrow> False | Some m \<Rightarrow> m \<noteq> [])"

definition search_product_by_name ::
  "'w transport \<Rightarrow> Config \<Rightarrow> string \<Rightarrow> bool \<Rightarrow> 'w client
     \<Rightarrow> (error + PipedriveProduct option) \<times> 'w client" where
  "search_product_by_name tr cfg product_name exact_match s =
     (let search_term = strip product_name in
      case make_request tr cfg GET ''products/search''
             [(''term'', search_term), (''exact_match'', if exact_match then ''1'' else ''0'')]
             None 3 s of
        (Inl e, s') \<Rightarrow>
          (case e of
             HTTPError code msg \<Rightarrow>
               if code = 404 then (Inr None, s')
               else (Inl (APIError (''Failed to search product: '' @ str_error e) None), s')
           | _ \<Rightarrow> (Inl e, s'))
      | (Inr response, s') \<Rightarrow>
          if \<not> success response then (Inr None, s')
          else
            (case data response of
               JAttachmentList xs \<Rightarrow>
                 (Inl (OtherException ''AttributeError: list object has no attribute get''), s')
             | JSearchItems items \<Rightarrow>
                 if items = [] then (Inr None, s')
                 else
                   (case find (\<lambda>item_data. exact_match \<and> strip (p_name item_data) = search_term)
                           items of
                      Some item_data \<Rightarrow> (Inr (Some item_data), s')
                    | None \<Rightarrow>
                        if \<not> exact_match \<and> items \<noteq> [] then (Inr (Some (hd items)), s')
                        else (Inr None, s'))
             | _ \<Rightarrow> (Inr None, s')))"

definition create_product ::
  "'w transport \<Rightarrow> Config \<Rightarrow> string \<Rightarrow> string option \<Rightarrow> bool \<Rightarrow> int \<Rightarrow> 'w client
     \<Rightarrow> (error + PipedriveProduct) \<times> 'w client" where
  "create_product tr cfg name code active visible_to s =
     (let product_data =
            ProductBody (take 255 name) active visible_to (if truthy_str code then code else None)
      in case make_request tr cfg POST ''products'' [] (Some product_data) 3 s of
           (Inl e, s') \<Rightarrow> (Inl e, s')
         | (Inr response, s') \<Rightarrow>
             if \<not> success response
             then (Inl (APIError (''Failed to create product: '' @ name) None), s')
             else
               (case parse_product (data response) of
                  Inr p \<Rightarrow> (Inr p, s')
                | Inl e \<Rightarrow> (Inl e, s')))"

definition get_deal_by_id ::
  "'w transport \<Rightarrow> Config \<Rightarrow> int \<Rightarrow> 'w client \<Rightarrow> (error + Deal option) \<times> 'w client" where
  "get_deal_by_id tr cfg deal s =
     (case make_request tr cfg GET (''deals/'' @ str_int deal) [] None 3 s of
        (Inl e, s') \<Rightarrow>
          (case e of
             HTTPError code msg \<Rightarrow>
               if code = 404 then (Inr None, s')
               else (Inl (APIError (''Failed to fetch deal '' @ str_int deal @ '': ''
                                      @ str_error e) None), s')
           | _ \<Rightarrow> (Inl e, s'))
      | (Inr response, s') \<Rightarrow>
          if \<not> success response then (Inr None, s')
          else if falsy (data response) then (Inr None, s')
          else
            (case parse_deal (data response) of
               Inr d \<Rightarrow> (Inr (Some d), s')
             | Inl e \<Rightarrow> (Inl e, s')))"

definition get_deal_products ::
  "'w transport \<Rightarrow> Config \<Rightarrow> int \<Rightarrow> 'w client
     \<Rightarrow> (error + DealProductAttachment list) \<times> 'w client" where
  "get_deal_products tr cfg deal s =
     (case make_request tr cfg GET (''deals/'' @ str_int deal @ ''/products'') [] None 3 s of
        (Inl e, s') \<Rightarrow>
          (case e of
             HTTPError code msg \<Rightarrow>
               if code = 404 then (Inr [], s')
               else (Inl (APIError (''Failed to fetch products for deal '' @ str_int deal
                                      @ '': '' @ str_error e) None), s')
           | _ \<Rightarrow> (Inl e, s'))
      | (Inr response, s') \<Rightarrow>
          if \<not> success response then (Inr [], s')
          else if falsy (data response) then (Inr [], s')
          else
            (case data response of
               JAttachmentList products_data \<Rightarrow> (Inr products_data, s')
             | _ \<Rightarrow> (Inl (OtherException ''TypeError: string indices must be integers''), s')))"

text \<open>The constant members of \<open>attachment_data\<close> (discount 0, duration 1, enabled) are
  left out of \<open>AttachBody\<close>.\<close>

definition attach_product_to_deal ::
  "'w transport \<Rightarrow> Config \<Rightarrow> int \<Rightarrow> int \<Rightarrow> rat \<Rightarrow> int \<Rightarrow> string option \<Rightarrow> 'w client
     \<Rightarrow> (error + DealProductAttachment) \<times> 'w client" where
  "attach_product_to_deal tr cfg deal product price qty cmts s =
     (let attachment_data =
            AttachBody product price qty (if truthy_str cmts then cmts else None)
      in case make_request tr cfg POST (''deals/'' @ str_int deal @ ''/products'') []
                (Some attachment_data) 3 s of
           (Inl e, s') \<Rightarrow> (Inl e, s')
         | (Inr response, s') \<Rightarrow>
             if \<not> success response
             then (Inl (APIError (''Failed to attach product '' @ str_int product
                                    @ '' to deal '' @ str_int deal) None), s')
             else
               (case parse_deal_product_attachment (data response) of
                  Inr a \<Rightarrow> (Inr a, s')
                | Inl e \<Rightarrow> (Inl e, s')))"

definition update_deal_product_attachment ::
  "'w transport \<Rightarrow> Config \<Rightarrow> int \<Rightarrow> int \<Rightarrow> rat option \<Rightarrow> int option \<Rightarrow> string option
     \<Rightarrow> 'w client \<Rightarrow> (error + DealProductAttachment) \<times> 'w client" where
  "update_deal_product_attachment tr cfg deal attachment price qty cmts s =
     (let update_data = UpdateBody price qty cmts
      in case make_request tr cfg PUT
                (''deals/'' @ str_int deal @ ''/products/'' @ str_int attachment) []
                (Some update_data) 3 s of
           (Inl e, s') \<Rightarrow> (Inl e, s')
         | (Inr response, s') \<Rightarrow>
             if \<not> success response
             then (Inl (APIError (''Failed to update attachment '' @ str_int attachment
                                    @ '' on deal '' @ str_int deal) None), s')
             else
               (case parse_deal_product_attachment (data response) of
                  Inr a \<Rightarrow> (Inr a, s')
                | Inl e \<Rightarrow> (Inl e, s')))"

section \<open>Product linking (product_linker.py)\<close>

definition new_action :: "string \<Rightarrow> int option \<Rightarrow> ProductActionType \<Rightarrow> ProductAction" where
  "new_action name w2 kind =
     \<lparr>company_name = name, w2_count = w2, action_type = kind, act_product_id = None,
      attachment_id = None, old_quantity = None, new_quantity = None, old_price = None,
      new_price = None, error_message = None\<rparr>"

definition get_companies_to_process :: "Config \<Rightarrow> Submission \<Rightarrow> AdditionalCompany list" where
  "get_companies_to_process cfg submission =
     (let process_mode = process_companies cfg;
          companies1 =
            (if process_mode = PRIMARY_ONLY \<or> process_mode = BOTH
             then (case primary_company submission of Some c \<Rightarrow> [c] | None \<Rightarrow> [])
             else []);
          companies2 =
            (if process_mode = ADDITIONAL_ONLY \<or> process_mode = BOTH
             then companies1 @ additional_companies submission
             else companies1)
      in companies2)"

definition validate_company :: "Config \<Rightarrow> AdditionalCompany \<Rightarrow> string option" where
  "validate_company cfg company =
     (case w2_employee_count company of
        None \<Rightarrow> if skip_missing_w2 cfg then Some ''Missing W2 employee count'' else None
      | Some w2 \<Rightarrow>
          if w2 = 0 \<and> skip_zero_w2 cfg then Some ''W2 employee count is zero''
          else if min_w2_count cfg > 0 \<and> w2 < min_w2_count cfg
          then Some (''W2 count ('' @ str_int w2 @ '') below minimum (''
                     @ str_int (min_w2_count cfg) @ '')'')
          else if max_w2_count cfg > 0 \<and> w2 > max_w2_count cfg
          then Some (''W2 count ('' @ str_int w2 @ '') exceeds maximum (''
                     @ str_int (max_w2_count cfg) @ '')'')
          else None)"

definition format_product_name :: "Config \<Rightarrow> string \<Rightarrow> string" where
  "format_product_name cfg name0 =
     (let name = rstrip_dot (strip name0);
          format_mode = product_name_format cfg
      in if format_mode = COMPANY_NAME then name
         else if format_mode = COMPANY_NAME_WITH_PREFIX then product_name_prefix cfg @ name
         else if format_mode = CUSTOM_FORMAT then name
         else name)"

definition find_or_create_product ::
  "'w transport \<Rightarrow> Config \<Rightarrow> string \<Rightarrow> bool \<Rightarrow> 'w client
     \<Rightarrow> (error + PipedriveProduct option \<times> ProductActionType option) \<times> 'w client" where
  "find_or_create_product tr cfg product_name dry_run s =
     (case search_product_by_name tr cfg product_name True s of
        (Inl e, s') \<Rightarrow> (Inl e, s')
      | (Inr (Some product), s') \<Rightarrow> (Inr (Some product, Some FOUND_CATALOG), s')
      | (Inr None, s') \<Rightarrow>
          if auto_create_products cfg then
            if dry_run then
              (Inr (Some \<lparr>p_id = 999999, p_name = product_name, p_code = None,
                           active_flag = True\<rparr>, Some CREATED_CATALOG), s')
            else
              (case create_product tr cfg product_name None (product_active_flag cfg)
                      (product_visible_to cfg) s' of
                 (Inr product, s'') \<Rightarrow> (Inr (Some product, Some CREATED_CATALOG), s'')
               | (Inl e, s'') \<Rightarrow>
                   if isinstance_APIError e then (Inr (None, None), s'') else (Inl e, s''))
          else (Inr (None, None), s'))"

definition calculate_quantity_and_price :: "Config \<Rightarrow> int option \<Rightarrow> int \<times> rat" where
  "calculate_quantity_and_price cfg w2 =
     (let effective_w2 = (case w2 of Some n \<Rightarrow> n | None \<Rightarrow> 1);
          calc_mode = value_calculation_mode cfg;
          qmode = quantity_mode cfg;
          qty = (if qmode = QM_W2_COUNT then effective_w2
                 else if qmode = ALWAYS_ONE then 1
                 else if qmode = CUSTOM then custom_quantity cfg
                 else effective_w2);
          price = (if calc_mode = VCM_W2_COUNT then of_int effective_w2
                   else if calc_mode = W2_COUNT_TIMES_PRICE then item_price_per_employee cfg
                   else if calc_mode = FIXED_PRICE then fixed_product_price cfg
                   else item_price_per_employee cfg)
      in (qty, price))"

fun find_existing_attachment ::
  "int \<Rightarrow> DealProductAttachment list \<Rightarrow> DealProductAttachment option" where
  "find_existing_attachment pid [] = None"
| "find_existing_attachment pid (attachment # attachments) =
     (if product_id attachment = pid then Some attachment
      else find_existing_attachment pid attachments)"

definition attach_new_product ::
  "'w transport \<Rightarrow> Config \<Rightarrow> AdditionalCompany \<Rightarrow> PipedriveProduct \<Rightarrow> int \<Rightarrow> rat \<Rightarrow> int
     \<Rightarrow> bool \<Rightarrow> 'w client \<Rightarrow> (error + ProductAction) \<times> 'w client" where
  "attach_new_product tr cfg company product qty price deal dry_run s =
     (if dry_run then
        (Inr ((new_action (company_legal_name company) (w2_employee_count company) ATTACHED_NEW)
                \<lparr>act_product_id := Some (p_id product), attachment_id := None,
                 new_quantity := Some qty, new_price := Some price\<rparr>), s)
      else
        (let cmts = ''AUTO_ATTACHED|company:'' @ company_legal_name company in
         case attach_product_to_deal tr cfg deal (p_id product) price qty (Some cmts) s of
           (Inr attachment, s') \<Rightarrow>
             (Inr ((new_action (company_legal_name company) (w2_employee_count company)
                      ATTACHED_NEW)
                     \<lparr>act_product_id := Some (p_id product),
                      attachment_id := Some (a_id attachment),
                      new_quantity := Some qty, new_price := Some price\<rparr>), s')
         | (Inl e, s') \<Rightarrow>
             if isinstance_APIError e then
               (Inr ((new_action (company_legal_name company) (w2_employee_count company) ERROR)
                       \<lparr>act_product_id := Some (p_id product),
                        error_message := Some (''Failed to attach product: '' @ str_error e)\<rparr>),
                s')
             else (Inl e, s')))"

definition skipped_action ::
  "AdditionalCompany \<Rightarrow> PipedriveProduct \<Rightarrow> DealProductAttachment \<Rightarrow> int \<Rightarrow> rat \<Rightarrow> ProductAction" where
  "skipped_action company product existing_attachment qty price =
     (new_action (company_legal_name company) (w2_employee_count company) SKIPPED_EXISTS)
       \<lparr>act_product_id := Some (p_id product),
        attachment_id := Some (a_id existing_attachment),
        old_quantity := Some (quantity existing_attachment),
        new_quantity := Some qty,
        old_price := Some (item_price existing_attachment),
        new_price := Some price\<rparr>"

definition updated_kind :: "bool \<Rightarrow> bool \<Rightarrow> ProductActionType" where
  "updated_kind update_quantity update_price =
     (if update_quantity \<and> update_price then UPDATED_QUANTITY
      else if update_quantity then UPDATED_QUANTITY
      else UPDATED_PRICE)"

definition update_attachment ::
  "'w transport \<Rightarrow> Config \<Rightarrow> AdditionalCompany \<Rightarrow> PipedriveProduct \<Rightarrow> DealProductAttachment
     \<Rightarrow> int \<Rightarrow> rat \<Rightarrow> int \<Rightarrow> bool \<Rightarrow> 'w client \<Rightarrow> (error + ProductAction) \<times> 'w client" where
  "update_attachment tr cfg company product existing_attachment qty price deal dry_run s =
     (let quantity_changed = (quantity existing_attachment \<noteq> qty);
          price_changed = (\<bar>item_price existing_attachment - price\<bar> > 1 / 100);
          w2_action_config = w2_change_action cfg;
          update_quantity =
            (if w2_action_config = UPDATE_QUANTITY then quantity_changed
             else if w2_action_config = UPDATE_PRICE then False
             else if w2_action_config = UPDATE_BOTH then quantity_changed
             else False);
          update_price =
            (if w2_action_config = UPDATE_QUANTITY then False
             else if w2_action_config = UPDATE_PRICE then price_changed
             else if w2_action_config = UPDATE_BOTH then price_changed
             else False)
      in if w2_action_config = W2_SKIP
         then (Inr (skipped_action company product existing_attachment qty price), s)
         else if \<not> update_quantity \<and> \<not> update_price
         then (Inr (skipped_action company product existing_attachment qty price), s)
         else if dry_run then
           (Inr ((new_action (company_legal_name company) (w2_employee_count company)
                    (updated_kind update_quantity update_price))
                   \<lparr>act_product_id := Some (p_id product),
                    attachment_id := Some (a_id existing_attachment),
                    old_quantity := Some (quantity existing_attachment),
                    new_quantity :=
                      Some (if update_quantity then qty else quantity existing_attachment),
                    old_price := Some (item_price existing_attachment),
                    new_price :=
                      Some (if update_price then price else item_price existing_attachment)\<rparr>),
            s)
         else
           (case update_deal_product_attachment tr cfg deal (a_id existing_attachment)
                   (if update_price then Some price else None)
                   (if update_quantity then Some qty else None) None s of
              (Inr updated_attachment, s') \<Rightarrow>
                (Inr ((new_action (company_legal_name company) (w2_employee_count company)
                         (updated_kind update_quantity update_price))
                        \<lparr>act_product_id := Some (p_id product),
                         attachment_id := Some (a_id updated_attachment),
                         old_quantity := Some (quantity existing_attachment),
                         new_quantity := Some (quantity updated_attachment),
                         old_price := Some (item_price existing_attachment),
                         new_price := Some (item_price updated_attachment)\<rparr>), s')
            | (Inl e, s') \<Rightarrow>
                if isinstance_APIError e then
                  (Inr ((new_action (company_legal_name company) (w2_employee_count company)
                           ERROR)
                          \<lparr>act_product_id := Some (p_id product),
                           error_message :=
                             Some (''Failed to update attachment: '' @ str_error e)\<rparr>), s')
                else (Inl e, s')))"

definition handle_duplicate_attachment ::
  "'w transport \<Rightarrow> Config \<Rightarrow> AdditionalCompany \<Rightarrow> PipedriveProduct \<Rightarrow> DealProductAttachment
     \<Rightarrow> int \<Rightarrow> rat \<Rightarrow> int \<Rightarrow> bool \<Rightarrow> 'w client \<Rightarrow> (error + ProductAction) \<times> 'w client" where
  "handle_duplicate_attachment tr cfg company product existing_attachment qty price deal
       dry_run s =
     (let action_type_config = duplicate_attachment_action cfg;
          quantity_matches = (quantity existing_attachment = qty);
          price_matches = (\<bar>item_price existing_attachment - price\<bar> < 1 / 100)
      in if quantity_matches \<and> price_matches
         then (Inr (skipped_action company product existing_attachment qty price), s)
         else if action_type_config = DA_SKIP
         then (Inr (skipped_action company product existing_attachment qty price), s)
         else if action_type_config = DA_UPDATE
         then update_attachment tr cfg company product existing_attachment qty price deal
                dry_run s
         else if action_type_config = DA_ERROR
         then (Inr ((new_action (company_legal_name company) (w2_employee_count company) ERROR)
                      \<lparr>act_product_id := Some (p_id product),
                       error_message :=
                         Some ''Product already attached (configured to error)''\<rparr>), s)
         else attach_new_product tr cfg company product qty price deal dry_run s)"

definition exception_action :: "AdditionalCompany \<Rightarrow> error \<Rightarrow> ProductAction" where
  "exception_action company e =
     (new_action (company_legal_name company) (w2_employee_count company) ERROR)
       \<lparr>error_message := Some (str_error e)\<rparr>"

text \<open>The whole body of \<open>_process_company\<close> is inside \<open>try ... except Exception\<close>: every
  exception of the steps becomes an error action.\<close>

definition process_company ::
  "'w transport \<Rightarrow> Config \<Rightarrow> AdditionalCompany \<Rightarrow> int \<Rightarrow> DealProductAttachment list \<Rightarrow> bool
     \<Rightarrow> 'w client \<Rightarrow> ProductAction \<times> 'w client" where
  "process_company tr cfg company deal current_attachments dry_run s =
     (let validation_error = validate_company cfg company in
      if truthy_str validation_error then
        ((new_action (company_legal_name company) (w2_employee_count company) ERROR)
           \<lparr>error_message := validation_error\<rparr>, s)
      else
        (let product_name = format_product_name cfg (company_legal_name company) in
         case find_or_create_product tr cfg product_name dry_run s of
           (Inl e, s1) \<Rightarrow> (exception_action company e, s1)
         | (Inr (None, catalog_action), s1) \<Rightarrow>
             ((new_action (company_legal_name company) (w2_employee_count company) ERROR)
                \<lparr>error_message := Some ''Failed to find or create product''\<rparr>, s1)
         | (Inr (Some product, catalog_action), s1) \<Rightarrow>
             (let (qty, price) = calculate_quantity_and_price cfg (w2_employee_count company);
                  existing_attachment = find_existing_attachment (p_id product) current_attachments;
                  (r, s2) =
                    (case existing_attachment of
                       Some existing \<Rightarrow>
                         handle_duplicate_attachment tr cfg company product existing qty price
                           deal dry_run s1
                     | None \<Rightarrow>
                         attach_new_product tr cfg company product qty price deal dry_run s1)
              in case r of
                   Inl e \<Rightarrow> (exception_action company e, s2)
                 | Inr action \<Rightarrow>
                     (case catalog_action of
                        Some kind \<Rightarrow>
                          if action_value kind \<noteq> [] \<and> action_type action \<noteq> ERROR
                          then (action\<lparr>action_type := kind\<rparr>, s2)
                          else (action, s2)
                      | None \<Rightarrow> (action, s2)))))"

definition is_success_kind :: "ProductActionType \<Rightarrow> bool" where
  "is_success_kind k = (k = ATTACHED_NEW \<or> k = UPDATED_QUANTITY \<or> k = UPDATED_PRICE)"

text \<open>The \<open>for company in companies\<close> loop of \<open>link_submission\<close>, with its two
  accumulators.\<close>

fun process_companies ::
  "'w transport \<Rightarrow> Config \<Rightarrow> AdditionalCompany list \<Rightarrow> int \<Rightarrow> DealProductAttachment list
     \<Rightarrow> bool \<Rightarrow> ProductAction list \<times> rat \<Rightarrow> 'w client
     \<Rightarrow> (ProductAction list \<times> rat) \<times> 'w client" where
  "process_companies tr cfg [] deal current_attachments dry_run acc s = (acc, s)"
| "process_companies tr cfg (company # rest) deal current_attachments dry_run
       (acts, total_value) s =
     (let (action, s') = process_company tr cfg company deal current_attachments dry_run s;
          acts' = acts @ [action];
          total_value' =
            (if is_success_kind (action_type action) then
               (case (new_quantity action, new_price action) of
                  (Some q, Some p) \<Rightarrow> total_value + of_int q * p
                | _ \<Rightarrow> total_value)
             else total_value)
      in process_companies tr cfg rest deal current_attachments dry_run
           (acts', total_value') s')"

definition early_result ::
  "Submission \<Rightarrow> int option \<Rightarrow> LinkStatus \<Rightarrow> string \<Rightarrow> LinkResult" where
  "early_result submission deal st msg =
     \<lparr>submission_id = sub_id submission, res_deal_id = deal, status = st,
      companies_processed = 0, actions = [], total_value_added = 0,
      res_error_message = Some msg\<rparr>"

definition link_submission ::
  "'w transport \<Rightarrow> Config \<Rightarrow> Submission \<Rightarrow> bool \<Rightarrow> 'w client
     \<Rightarrow> (error + LinkResult) \<times> 'w client" where
  "link_submission tr cfg submission dry_run s =
     (case deal_id submission of
        None \<Rightarrow> (Inr (early_result submission None NO_DEAL_ID ''No dealId in submission''), s)
      | Some deal \<Rightarrow>
          (let companies = get_companies_to_process cfg submission in
           if companies = [] then
             (Inr (early_result submission (Some deal) NO_COMPANIES ''No companies to process''),
              s)
           else
             (case get_deal_by_id tr cfg deal s of
                (Inl e, s1) \<Rightarrow>
                  if isinstance_APIError e then
                    (Inr (early_result submission (Some deal) FAILED_ERROR
                            (''Failed to verify deal: '' @ str_error e)), s1)
                  else (Inl e, s1)
              | (Inr None, s1) \<Rightarrow>
                  if skip_orphaned_deals cfg then
                    (Inr (early_result submission (Some deal) ORPHANED
                            (''Deal '' @ str_int deal @ '' not found in Pipedrive'')), s1)
                  else
                    (Inl (OrphanedDealError (''Deal '' @ str_int deal @ '' not found'') deal
                            (sub_id submission)), s1)
              | (Inr (Some d), s1) \<Rightarrow>
                  (case get_deal_products tr cfg deal s1 of
                     (Inl e, s2) \<Rightarrow>
                       if isinstance_APIError e then
                         (Inr (early_result submission (Some deal) FAILED_ERROR
                                 (''Failed to fetch deal products: '' @ str_error e)), s2)
                       else (Inl e, s2)
                   | (Inr current_attachments, s2) \<Rightarrow>
                       (let ((acts, total_value), s3) =
                              process_companies tr cfg companies deal current_attachments
                                dry_run ([], 0) s2;
                            has_success = list_ex (\<lambda>a. is_success_kind (action_type a)) acts;
                            has_errors = list_ex (\<lambda>a. action_type a = ERROR) acts;
                            st =
                              (if has_errors \<and> \<not> has_success then FAILED_ERROR
                               else if has_success then SUCCESS
                               else if list_ex (\<lambda>a. action_type a = SKIPPED_EXISTS) acts
                               then SKIPPED
                               else FAILED_ERROR)
                        in (Inr \<lparr>submission_id = sub_id submission,
                                 res_deal_id = Some deal, status = st,
                                 companies_processed = length companies, actions = acts,
                                 total_value_added = total_value,
                                 res_error_message = None\<rparr>, s3))))))"

section \<open>Remotes and inputs used in the examples\<close>

text \<open>A scripted remote answers the attempts in order from a list (and times out once
  the list is used up); an answering remote answers each request by a fixed function of
  the request alone.\<close>

definition scripted :: "(attempt list) transport" where
  "scripted w req = (case w of [] \<Rightarrow> (TimedOut, []) | a # rest \<Rightarrow> (a, rest))"

definition answering :: "(request \<Rightarrow> attempt) \<Rightarrow> 'w transport" where
  "answering f w req = (f req, w)"

definition fresh_client :: "'w \<Rightarrow> 'w client" where
  "fresh_client w = \<lparr>api_call_count = 0, slept = [], sent = [], world = w\<rparr>"

definition http_answer :: "nat \<Rightarrow> string \<Rightarrow> bool \<Rightarrow> json_data \<Rightarrow> attempt" where
  "http_answer code why ok d =
     Responded \<lparr>status_code = code, reason = why, body = \<lparr>success = ok, data = d\<rparr>\<rparr>"

text \<open>\<open>Config._get_standard_profile\<close>, with the credentials filled in.\<close>

definition standard_profile :: Config where
  "standard_profile =
     \<lparr>pipedrive_api_key = ''key'', base_url = ''https://acme.pipedrive.com/api/v1'',
      process_companies = ADDITIONAL_ONLY, product_name_format = COMPANY_NAME,
      product_name_prefix = [], value_calculation_mode = W2_COUNT_TIMES_PRICE,
      item_price_per_employee = 1, fixed_product_price = 100, quantity_mode = QM_W2_COUNT,
      custom_quantity = 1, duplicate_attachment_action = DA_UPDATE,
      w2_change_action = UPDATE_BOTH, auto_create_products = True, product_visible_to = 3,
      product_active_flag = True, skip_orphaned_deals = True, skip_missing_w2 = True,
      skip_zero_w2 = True, min_w2_count = 0, max_w2_count = 10000\<rparr>"

definition too_many_requests :: attempt where
  "too_many_requests = http_answer 429 ''Too Many Requests'' False JAbsent"

definition ok_empty :: attempt where
  "ok_empty = http_answer 200 ''OK'' True JAbsent"

definition server_error :: attempt where
  "server_error = http_answer 500 ''Internal Server Error'' False JAbsent"

definition not_found :: attempt where
  "not_found = http_answer 404 ''Not Found'' False JAbsent"

definition deal7_request :: request where
  "deal7_request = build_request standard_profile GET ''deals/7'' [] None"

definition missing_remote :: "request \<Rightarrow> attempt" where
  "missing_remote req = not_found"

definition acme :: AdditionalCompany where
  "acme = \<lparr>company_legal_name = ''Acme'', w2_employee_count = Some 50\<rparr>"

definition submission7 :: "AdditionalCompany list \<Rightarrow> Submission" where
  "submission7 companies =
     \<lparr>sub_id = ''s1'', deal_id = Some 7, primary_company = None,
      additional_companies = companies\<rparr>"

definition deal7 :: Deal where
  "deal7 = \<lparr>d_id = 7, title = ''Deal'', d_value = None, stage_id = 1, pipeline_id = 1,
             org_id = None\<rparr>"

definition acme_product :: PipedriveProduct where
  "acme_product = \<lparr>p_id = 42, p_name = ''Acme'', p_code = None, active_flag = True\<rparr>"

definition attachment_of :: "int \<Rightarrow> int \<Rightarrow> rat \<Rightarrow> int \<Rightarrow> DealProductAttachment" where
  "attachment_of ident product price qty =
     \<lparr>a_id = ident, product_id = product, a_deal_id = 7, item_price = price, quantity = qty,
      a_sum = of_int qty * price, a_name = [], comments = None\<rparr>"

text \<open>A remote that holds deal 7 with the given attachments and the given catalog, makes
  product 43 on a catalog create and attachment 900 on an attachment create, and knows
  nothing else.\<close>

definition acme_remote ::
  "DealProductAttachment list \<Rightarrow> PipedriveProduct list \<Rightarrow> request \<Rightarrow> attempt" where
  "acme_remote attached catalog req =
     (let api = ''https://acme.pipedrive.com/api/v1'' in
      if req_method req = GET \<and> req_url req = api @ ''/deals/7''
      then http_answer 200 ''OK'' True (JDeal deal7)
      else if req_method req = GET \<and> req_url req = api @ ''/deals/7/products''
      then http_answer 200 ''OK'' True (JAttachmentList attached)
      else if req_method req = GET \<and> req_url req = api @ ''/products/search''
      then http_answer 200 ''OK'' True (JSearchItems catalog)
      else if req_method req = POST \<and> req_url req = api @ ''/products''
      then (case req_json req of
              Some (ProductBody name active visible code) \<Rightarrow>
                http_answer 201 ''Created'' True
                  (JProduct \<lparr>p_id = 43, p_name = name, p_code = code, active_flag = active\<rparr>)
            | _ \<Rightarrow> http_answer 400 ''Bad Request'' False JAbsent)
      else if req_method req = POST \<and> req_url req = api @ ''/deals/7/products''
      then (case req_json req of
              Some (AttachBody product price qty cmts) \<Rightarrow>
                http_answer 201 ''Created'' True
                  (JAttachment (attachment_of 900 product price qty))
            | _ \<Rightarrow> http_answer 400 ''Bad Request'' False JAbsent)
      else not_found)"

section \<open>The claims in the specification's words\<close>

text \<open>Validation as the specification states it: the minimum applies whatever its sign.\<close>

definition claimed_validation_fails :: "Config \<Rightarrow> int option \<Rightarrow> bool" where
  "claimed_validation_fails cfg w2 =
     ((w2 = None \<and> skip_missing_w2 cfg)
      \<or> (w2 = Some 0 \<and> skip_zero_w2 cfg)
      \<or> (case w2 of None \<Rightarrow> False | Some n \<Rightarrow> n < min_w2_count cfg)
      \<or> (case w2 of None \<Rightarrow> False | Some n \<Rightarrow> max_w2_count cfg > 0 \<and> n > max_w2_count cfg))"

text \<open>The same with the minimum applying only when it is positive.\<close>

definition amended_validation_fails :: "Config \<Rightarrow> int option \<Rightarrow> bool" where
  "amended_validation_fails cfg w2 =
     ((w2 = None \<and> skip_missing_w2 cfg)
      \<or> (w2 = Some 0 \<and> skip_zero_w2 cfg)
      \<or> (case w2 of None \<Rightarrow> False | Some n \<Rightarrow> min_w2_count cfg > 0 \<and> n < min_w2_count cfg)
      \<or> (case w2 of None \<Rightarrow> False | Some n \<Rightarrow> max_w2_count cfg > 0 \<and> n > max_w2_count cfg))"


section \<open>Comparing a dry run with a real run\<close>







section \<open>The gateway: attempts, backoff and the call counter\<close>

lemma upt3: "[0..<3] = [0, 1, 2]"
  by (simp add: upt_rec)

lemma try_body_429:
  "tr (world s) req = (Responded r, w) \<Longrightarrow> status_code r = 429 \<Longrightarrow>
   try_body tr req m a s =
     (if int a < int m - 1
      then (Continue, \<lparr>api_call_count = api_call_count s + 1, slept = slept s @ [2 ^ a],
                       sent = sent s @ [req], world = w\<rparr>)
      else (Raise (RateLimitError ''Rate limit exceeded after retries'' (Some 429)),
            \<lparr>api_call_count = api_call_count s + 1, slept = slept s,
             sent = sent s @ [req], world = w\<rparr>))"
  by (simp add: try_body_def sleep_def)

lemma try_body_passes:
  "tr (world s) req = (Responded r, w) \<Longrightarrow> passes r \<Longrightarrow>
   try_body tr req m a s =
     (Return (body r), \<lparr>api_call_count = api_call_count s + 1, slept = slept s,
                        sent = sent s @ [req], world = w\<rparr>)"
  by (simp add: try_body_def passes_def raise_for_status_def)

lemma try_body_http_error:
  "tr (world s) req = (Responded r, w) \<Longrightarrow> status_code r \<noteq> 429 \<Longrightarrow>
   400 \<le> status_code r \<Longrightarrow> status_code r < 600 \<Longrightarrow>
   try_body tr req m a s =
     (Raise (HTTPError (status_code r) (http_error_text r req)),
      \<lparr>api_call_count = api_call_count s + 1, slept = slept s,
       sent = sent s @ [req], world = w\<rparr>)"
  by (simp add: try_body_def raise_for_status_def)

lemma try_body_counts:
  "try_body tr req m a s = (t, s1) \<Longrightarrow>
     api_call_count s1 = api_call_count s + 1 \<and> sent s1 = sent s @ [req]"
  by (auto simp: try_body_def Let_def sleep_def
           split: prod.splits attempt.splits if_splits option.splits)

text \<open>Every attempt, failed or not, adds one to the counter and hands one request to the
  transport; a loop over \<open>n\<close> attempt numbers makes between one and \<open>n\<close> attempts.\<close>

lemma request_loop_counts:
  "request_loop tr req m as s = (r, s') \<Longrightarrow>
     \<exists>k\<le>length as. (as \<noteq> [] \<longrightarrow> 1 \<le> k) \<and> api_call_count s' = api_call_count s + k
        \<and> sent s' = sent s @ replicate k req"
proof (induction as arbitrary: s)
  case Nil
  then show ?case by simp
next
  case (Cons a as)
  obtain t s1 where tb: "try_body tr req m a s = (t, s1)"
    by (cases "try_body tr req m a s")
  note s1 = try_body_counts[OF tb]
  have here: ?case if "s' = s1"
    using that s1 by (intro exI[of _ 1]) simp
  have later: ?case
    if "request_loop tr req m as s1' = (r, s')"
      and "api_call_count s1' = api_call_count s1" "sent s1' = sent s1" for s1'
  proof -
    from Cons.IH[OF that(1)] obtain k where k: "k \<le> length as"
      "api_call_count s' = api_call_count s1' + k" "sent s' = sent s1' @ replicate k req"
      by blast
    have "Suc k \<le> length (a # as)" using k by simp
    moreover have "api_call_count s' = api_call_count s + Suc k" using k that s1 by simp
    moreover have "sent s' = sent s @ replicate (Suc k) req"
      using k that s1 by (simp add: replicate_app_Cons_same)
    ultimately show ?thesis by (intro exI[of _ "Suc k"]) simp
  qed
  show ?case
  proof (cases t)
    case (Return b)
    then have "s' = s1" using Cons.prems tb by simp
    then show ?thesis by (rule here)
  next
    case Continue
    then have "request_loop tr req m as s1 = (r, s')" using Cons.prems tb by simp
    from later[OF this] show ?thesis by simp
  next
    case (Raise e)
    show ?thesis
    proof (cases "isinstance_RequestException e \<and> int a < int m - 1")
      case True
      then have "request_loop tr req m as (sleep (1 * (a + 1)) s1) = (r, s')"
        using Cons.prems tb Raise by (auto split: if_splits)
      from later[OF this] show ?thesis by (simp add: sleep_def)
    next
      case False
      then have "s' = s1" using Cons.prems tb Raise by (auto split: if_splits)
      then show ?thesis by (rule here)
    qed
  qed
qed

text \<open>
  C7 (as amended).  With the budget of 3 every remote call makes between one and three
  attempts and the call counter grows by exactly the number of attempts.  A 429 on
  attempt 0 is followed by a sleep of 1s and a 429 on attempt 1 by a sleep of 2s; a
  response that passes after one or two 429s is returned; a 429 on attempt 2 raises the
  rate-limit failure at once: no sleep of 4s is ever made.
\<close>

theorem make_request_rate_limit_backoff:
  fixes tr :: "'w transport" and s :: "'w client"
  assumes "req = build_request cfg method endpoint params json_data"
  shows "(\<exists>k. 1 \<le> k \<and> k \<le> 3
            \<and> api_call_count (snd (make_request tr cfg method endpoint params json_data 3 s))
                = api_call_count s + k
            \<and> sent (snd (make_request tr cfg method endpoint params json_data 3 s))
                = sent s @ replicate k req)
      \<and> (tr (world s) req = (Responded r0, w1) \<and> status_code r0 = 429 \<and>
           tr w1 req = (Responded r1, w2) \<and> passes r1 \<longrightarrow>
           make_request tr cfg method endpoint params json_data 3 s =
             (Inr (body r1),
              \<lparr>api_call_count = api_call_count s + 2, slept = slept s @ [1],
               sent = sent s @ [req, req], world = w2\<rparr>))
      \<and> (tr (world s) req = (Responded r0, w1) \<and> status_code r0 = 429 \<and>
           tr w1 req = (Responded r1, w2) \<and> status_code r1 = 429 \<and>
           tr w2 req = (Responded r2, w3) \<and> passes r2 \<longrightarrow>
           make_request tr cfg method endpoint params json_data 3 s =
             (Inr (body r2),
              \<lparr>api_call_count = api_call_count s + 3, slept = slept s @ [1, 2],
               sent = sent s @ [req, req, req], world = w3\<rparr>))
      \<and> (tr (world s) req = (Responded r0, w1) \<and> status_code r0 = 429 \<and>
           tr w1 req = (Responded r1, w2) \<and> status_code r1 = 429 \<and>
           tr w2 req = (Responded r2, w3) \<and> status_code r2 = 429 \<longrightarrow>
           make_request tr cfg method endpoint params json_data 3 s =
             (Inl (RateLimitError ''Rate limit exceeded after retries'' (Some 429)),
              \<lparr>api_call_count = api_call_count s + 3, slept = slept s @ [1, 2],
               sent = sent s @ [req, req, req], world = w3\<rparr>))"
proof -
  obtain r s' where run: "request_loop tr req 3 [0..<3] s = (r, s')"
    by (cases "request_loop tr req 3 [0..<3] s")
  from request_loop_counts[OF run] obtain k where
    "k \<le> 3" "1 \<le> k" "api_call_count s' = api_call_count s + k"
    "sent s' = sent s @ replicate k req"
    by (auto simp: upt3)
  then have counts: "\<exists>k. 1 \<le> k \<and> k \<le> 3
            \<and> api_call_count (snd (make_request tr cfg method endpoint params json_data 3 s))
                = api_call_count s + k
            \<and> sent (snd (make_request tr cfg method endpoint params json_data 3 s))
                = sent s @ replicate k req"
    using run assms by (auto simp: make_request_def)
  show ?thesis
    using assms counts
    by (simp add: make_request_def upt3 try_body_429 try_body_passes)
qed

theorem make_request_rate_limit_backoff_witness:
  "make_request scripted standard_profile GET ''deals/7'' [] None 3
       (fresh_client [too_many_requests, ok_empty])
     = (Inr \<lparr>success = True, data = JAbsent\<rparr>,
        \<lparr>api_call_count = 2, slept = [1], sent = [deal7_request, deal7_request],
         world = []\<rparr>)
   \<and> make_request scripted standard_profile GET ''deals/7'' [] None 3
       (fresh_client [too_many_requests, too_many_requests, ok_empty])
     = (Inr \<lparr>success = True, data = JAbsent\<rparr>,
        \<lparr>api_call_count = 3, slept = [1, 2],
         sent = [deal7_request, deal7_request, deal7_request], world = []\<rparr>)
   \<and> make_request scripted standard_profile GET ''deals/7'' [] None 3
       (fresh_client [too_many_requests, too_many_requests, too_many_requests])
     = (Inl (RateLimitError ''Rate limit exceeded after retries'' (Some 429)),
        \<lparr>api_call_count = 3, slept = [1, 2],
         sent = [deal7_request, deal7_request, deal7_request], world = []\<rparr>)"
proof -
  have req: "deal7_request = build_request standard_profile GET ''deals/7'' [] None"
    by (simp add: deal7_request_def)
  note backoff = make_request_rate_limit_backoff[OF req, where tr = scripted]
  have a: "passes \<lparr>status_code = 200, reason = ''OK'',
                   body = \<lparr>success = True, data = JAbsent\<rparr>\<rparr>"
    by (simp add: passes_def)
  show ?thesis
    using a
      backoff[where s = "fresh_client [too_many_requests, ok_empty]"
            and ?r0.0 = "\<lparr>status_code = 429, reason = ''Too Many Requests'',
                           body = \<lparr>success = False, data = JAbsent\<rparr>\<rparr>"
            and ?w1.0 = "[ok_empty]"
            and ?r1.0 = "\<lparr>status_code = 200, reason = ''OK'',
                           body = \<lparr>success = True, data = JAbsent\<rparr>\<rparr>"
            and ?w2.0 = "[]"]
      backoff[where s = "fresh_client [too_many_requests, too_many_requests, ok_empty]"
            and ?r0.0 = "\<lparr>status_code = 429, reason = ''Too Many Requests'',
                           body = \<lparr>success = False, data = JAbsent\<rparr>\<rparr>"
            and ?w1.0 = "[too_many_requests, ok_empty]"
            and ?r1.0 = "\<lparr>status_code = 429, reason = ''Too Many Requests'',
                           body = \<lparr>success = False, data = JAbsent\<rparr>\<rparr>"
            and ?w2.0 = "[ok_empty]"
            and ?r2.0 = "\<lparr>status_code = 200, reason = ''OK'',
                           body = \<lparr>success = True, data = JAbsent\<rparr>\<rparr>"
            and ?w3.0 = "[]"]
      backoff[where s = "fresh_client [too_many_requests, too_many_requests, too_many_requests]"
            and ?r0.0 = "\<lparr>status_code = 429, reason = ''Too Many Requests'',
                           body = \<lparr>success = False, data = JAbsent\<rparr>\<rparr>"
            and ?w1.0 = "[too_many_requests, too_many_requests]"
            and ?r1.0 = "\<lparr>status_code = 429, reason = ''Too Many Requests'',
                           body = \<lparr>success = False, data = JAbsent\<rparr>\<rparr>"
            and ?w2.0 = "[too_many_requests]"
            and ?r2.0 = "\<lparr>status_code = 429, reason = ''Too Many Requests'',
                           body = \<lparr>success = False, data = JAbsent\<rparr>\<rparr>"
            and ?w3.0 = "[]"]
    by (simp add: scripted_def fresh_client_def too_many_requests_def ok_empty_def
                  http_answer_def)
qed

text \<open>The claim as stated has a third sleep of 4s for attempt 2: against a remote that
  answers 429 three times the sleeps are 1s and 2s only.\<close>

theorem make_request_rate_limit_backoff_counterexample:
  "slept (snd (make_request scripted standard_profile GET ''deals/7'' [] None 3
                 (fresh_client [too_many_requests, too_many_requests, too_many_requests])))
     = [1, 2]
   \<and> slept (snd (make_request scripted standard_profile GET ''deals/7'' [] None 3
                 (fresh_client [too_many_requests, too_many_requests, too_many_requests])))
     \<noteq> [1, 2, 4]"
  by (simp add: make_request_def upt3 try_body_def scripted_def fresh_client_def
                too_many_requests_def http_answer_def sleep_def)

section \<open>HTTP errors in the gateway\<close>

lemma str7: "str_int 7 = ''7''"
  by (simp add: str_int_def digit_char_def)

text \<open>Whatever the remote does, the only exceptions that leave \<open>_make_request\<close> are
  \<open>APIError\<close> and \<open>RateLimitError\<close>: every exception of the HTTP library, the
  \<open>HTTPError\<close> of \<open>raise_for_status\<close> included, is retried or wrapped.\<close>

lemma try_body_raises:
  "try_body tr req m a s = (Raise e, s1) \<Longrightarrow>
     isinstance_RequestException e \<or> isinstance_APIError e"
  by (auto simp: try_body_def Let_def raise_for_status_def
           split: prod.splits attempt.splits if_splits option.splits)

lemma request_loop_raises_api_errors_only:
  "request_loop tr req m as s = (Inl e, s') \<Longrightarrow> isinstance_APIError e"
proof (induction as arbitrary: s)
  case Nil
  then show ?case by auto
next
  case (Cons a as)
  obtain t s1 where tb: "try_body tr req m a s = (t, s1)"
    by (cases "try_body tr req m a s")
  show ?case
  proof (cases t)
    case (Return b)
    then show ?thesis using Cons.prems tb by simp
  next
    case Continue
    then show ?thesis using Cons.prems tb Cons.IH by simp
  next
    case (Raise x)
    from try_body_raises[OF tb[unfolded Raise]]
    show ?thesis
      using Cons.prems tb Raise Cons.IH
      by (cases x) (auto split: if_splits)
  qed
qed

lemma make_request_raises_api_errors_only:
  "make_request tr cfg m e p j n s = (Inl x, s') \<Longrightarrow> isinstance_APIError x"
  unfolding make_request_def by (rule request_loop_raises_api_errors_only)

text \<open>So the \<open>HTTPError\<close> handlers of the client operations are never entered: when the
  deal lookup returns \<open>None\<close>, it is the decoded body that said so, never a 404.\<close>

lemma get_deal_by_id_none_is_said_by_the_body:
  assumes "get_deal_by_id tr cfg deal s = (Inr None, s')"
  shows "\<exists>response. make_request tr cfg GET (''deals/'' @ str_int deal) [] None 3 s
                        = (Inr response, s')
                    \<and> (\<not> success response \<or> falsy (data response))"
proof -
  let ?mr = "make_request tr cfg GET (''deals/'' @ str_int deal) [] None 3 s"
  obtain x s1 where mr: "?mr = (x, s1)" by (cases ?mr)
  show ?thesis
  proof (cases x)
    case (Inl e)
    with make_request_raises_api_errors_only[of tr cfg GET _ "[]" None 3 s e s1] mr
    have "isinstance_APIError e" by simp
    then show ?thesis
      using assms mr Inl by (cases e) (simp_all add: get_deal_by_id_def)
  next
    case (Inr response)
    then show ?thesis
      using assms mr
      by (auto simp: get_deal_by_id_def split: if_splits sum.splits)
  qed
qed

text \<open>
  C4.  \<open>raise_for_status\<close> raises an \<open>HTTPError\<close> inside the \<open>try\<close> block, and
  \<open>HTTPError\<close> is a \<open>RequestException\<close>: the last \<open>except\<close> clause catches it.  A 500
  on attempt 0 is therefore followed by a sleep of 1s and a second attempt, whose
  answer is returned; three 404s cost three attempts and the sleeps 1s and 2s before an
  \<open>APIError\<close> is raised.
\<close>

theorem make_request_retries_http_errors:
  "make_request scripted standard_profile GET ''deals/7'' [] None 3
       (fresh_client [server_error, ok_empty])
     = (Inr \<lparr>success = True, data = JAbsent\<rparr>,
        \<lparr>api_call_count = 2, slept = [1], sent = [deal7_request, deal7_request],
         world = []\<rparr>)
   \<and> make_request scripted standard_profile GET ''deals/7'' [] None 3
       (fresh_client [not_found, not_found, not_found])
     = (Inl (APIError (''Request failed: 404 Client Error: Not Found for url: ''
                        @ ''https://acme.pipedrive.com/api/v1/deals/7'') None),
        \<lparr>api_call_count = 3, slept = [1, 2],
         sent = [deal7_request, deal7_request, deal7_request], world = []\<rparr>)"
  by (simp add: make_request_def upt3 try_body_def scripted_def fresh_client_def
        server_error_def ok_empty_def not_found_def http_answer_def sleep_def
        raise_for_status_def http_error_text_def deal7_request_def build_request_def
        standard_profile_def digit_char_def)

text \<open>
  C5.  Against a remote that answers 404 to the deal lookup, \<open>get_deal_by_id\<close> does not
  return \<open>None\<close>: the gateway has already turned the 404 into an \<open>APIError\<close> after
  three attempts, the \<open>HTTPError\<close> handler of \<open>get_deal_by_id\<close> is never reached, and
  \<open>link_submission\<close> reports \<open>FAILED_ERROR\<close>, not \<open>ORPHANED\<close>.
\<close>

theorem deal_lookup_404_is_failed_error:
  "get_deal_by_id (answering missing_remote) standard_profile 7 (fresh_client ())
     = (Inl (APIError (''Request failed: 404 Client Error: Not Found for url: ''
                        @ ''https://acme.pipedrive.com/api/v1/deals/7'') None),
        \<lparr>api_call_count = 3, slept = [1, 2],
         sent = [deal7_request, deal7_request, deal7_request], world = ()\<rparr>)
   \<and> fst (link_submission (answering missing_remote) standard_profile (submission7 [acme])
            False (fresh_client ()))
     = Inr (early_result (submission7 [acme]) (Some 7) FAILED_ERROR
              (''Failed to verify deal: Request failed: 404 Client Error: Not Found for url: ''
               @ ''https://acme.pipedrive.com/api/v1/deals/7''))"
  by (simp add: link_submission_def get_deal_by_id_def get_companies_to_process_def
        submission7_def acme_def str7 missing_remote_def answering_def
        make_request_def upt3 try_body_def fresh_client_def
        not_found_def http_answer_def sleep_def
        raise_for_status_def http_error_text_def deal7_request_def build_request_def
        standard_profile_def digit_char_def)

section \<open>Company validation\<close>

lemma validate_company_truthy:
  "validate_company cfg company = Some msg \<Longrightarrow> msg \<noteq> []"
  by (auto simp: validate_company_def split: option.splits if_splits)

text \<open>
  C8 (as amended).  Validation fails exactly when the W2 count is missing and skip-missing
  is set, or it is zero and skip-zero is set, or it is below the minimum and the minimum
  is positive, or it is above the maximum and the maximum is positive.  When it fails the
  company's action is an error action carrying the verdict, and the client is left as it
  was: no remote call of any kind is made.
\<close>

theorem validate_company_cases:
  "(validate_company cfg company \<noteq> None
      \<longleftrightarrow> amended_validation_fails cfg (w2_employee_count company))
   \<and> (validate_company cfg company \<noteq> None \<longrightarrow>
        process_company tr cfg company deal current_attachments dry_run s
          = ((new_action (company_legal_name company) (w2_employee_count company) ERROR)
               \<lparr>error_message := validate_company cfg company\<rparr>, s))"
proof (intro conjI impI)
  show "validate_company cfg company \<noteq> None
      \<longleftrightarrow> amended_validation_fails cfg (w2_employee_count company)"
    by (auto simp: validate_company_def amended_validation_fails_def split: option.splits)
next
  assume "validate_company cfg company \<noteq> None"
  then obtain msg where m: "validate_company cfg company = Some msg" by blast
  with validate_company_truthy[OF m]
  show "process_company tr cfg company deal current_attachments dry_run s
          = ((new_action (company_legal_name company) (w2_employee_count company) ERROR)
               \<lparr>error_message := validate_company cfg company\<rparr>, s)"
    by (simp add: process_company_def truthy_str_def)
qed

theorem validate_company_cases_witness:
  "validate_company standard_profile \<lparr>company_legal_name = ''Acme'', w2_employee_count = None\<rparr>
     = Some ''Missing W2 employee count''
   \<and> process_company scripted standard_profile
        \<lparr>company_legal_name = ''Acme'', w2_employee_count = None\<rparr> 7 [] False (fresh_client [])
      = ((new_action ''Acme'' None ERROR)\<lparr>error_message := Some ''Missing W2 employee count''\<rparr>,
         fresh_client [])"
  using validate_company_cases
          [of standard_profile "\<lparr>company_legal_name = ''Acme'', w2_employee_count = None\<rparr>"
              scripted 7 "[]" False "fresh_client []"]
  by (simp add: validate_company_def standard_profile_def amended_validation_fails_def)

text \<open>With the standard profile the minimum is 0; a W2 count of -1 is below it, and
  validation passes.\<close>

theorem validate_company_cases_counterexample:
  "claimed_validation_fails standard_profile (Some (- 1))
   \<and> validate_company standard_profile
        \<lparr>company_legal_name = ''Acme'', w2_employee_count = Some (- 1)\<rparr> = None"
  by (simp add: claimed_validation_fails_def validate_company_def standard_profile_def)

section \<open>One company, end to end\<close>

lemmas run_simps = link_submission_def get_deal_by_id_def get_deal_products_def
  get_companies_to_process_def process_company_def validate_company_def
  format_product_name_def find_or_create_product_def search_product_by_name_def
  create_product_def calculate_quantity_and_price_def attach_new_product_def
  attach_product_to_deal_def handle_duplicate_attachment_def update_attachment_def
  update_deal_product_attachment_def skipped_action_def new_action_def exception_action_def
  is_success_kind_def early_result_def falsy_def truthy_str_def
  strip_def rstrip_ws_def rstrip_dot_def is_space_def
  make_request_def build_request_def upt3 try_body_def raise_for_status_def sleep_def
  answering_def fresh_client_def http_answer_def not_found_def standard_profile_def
  acme_def submission7_def deal7_def acme_product_def acme_remote_def
  attachment_of_def str7 Let_def

text \<open>
  C1.  The scenario of the claim: W2 = 50, \<open>W2_COUNT_TIMES_PRICE\<close> at 2.0 per employee,
  quantity mode \<open>W2_COUNT\<close>, nothing attached to the deal, the product in the catalog,
  every remote call answered with success.  Quantity and price are computed as 50 and
  2.0 and the attachment is created, but \<open>_process_company\<close> then overwrites the kind of
  the action with the catalog kind, which is set whenever a product was found or
  created: the action comes back as \<open>FOUND_CATALOG\<close>, it adds nothing to
  \<open>total_value_added\<close>, and the outcome is \<open>FAILED_ERROR\<close>.
\<close>

theorem attached_new_is_reported_as_found_catalog:
  "calculate_quantity_and_price (standard_profile\<lparr>item_price_per_employee := 2\<rparr>) (Some 50)
     = (50, 2)
   \<and> map_sum id (\<lambda>r. (map action_type (actions r), map new_quantity (actions r),
                       map new_price (actions r), total_value_added r, status r))
       (fst (link_submission (answering (acme_remote [] [acme_product]))
               (standard_profile\<lparr>item_price_per_employee := 2\<rparr>) (submission7 [acme]) False
               (fresh_client ())))
     = Inr ([FOUND_CATALOG], [Some 50], [Some 2], 0, FAILED_ERROR)"
  by (simp add: run_simps)

text \<open>
  C3.  The deal already carries the product with quantity 50 at 2.0, exactly what is
  computed.  \<open>_handle_duplicate_attachment\<close> answers \<open>SKIPPED_EXISTS\<close> without a remote
  call, and the only request of the whole company is the catalog search; but the action
  that \<open>_process_company\<close> returns has kind \<open>FOUND_CATALOG\<close>, by the same overwrite.
\<close>

theorem exact_match_is_reported_as_found_catalog:
  "map_prod (map_sum id action_type) sent
      (handle_duplicate_attachment
         (answering (acme_remote [attachment_of 900 42 2 50] [acme_product]))
         (standard_profile\<lparr>item_price_per_employee := 2\<rparr>) acme acme_product
         (attachment_of 900 42 2 50) 50 2 7 False (fresh_client ()))
     = (Inr SKIPPED_EXISTS, [])
   \<and> map_prod action_type (\<lambda>s. map req_method (sent s))
       (process_company (answering (acme_remote [attachment_of 900 42 2 50] [acme_product]))
          (standard_profile\<lparr>item_price_per_employee := 2\<rparr>) acme 7
          [attachment_of 900 42 2 50] False (fresh_client ()))
     = (FOUND_CATALOG, [GET])"
  by (simp add: run_simps)

section \<open>The status of a submission\<close>






section \<open>The change handler and the price tolerance\<close>

lemma make_request_counts:
  "\<exists>k. 1 \<le> k \<and> k \<le> 3
      \<and> api_call_count (snd (make_request tr cfg m e p j 3 s)) = api_call_count s + k
      \<and> sent (snd (make_request tr cfg m e p j 3 s))
          = sent s @ replicate k (build_request cfg m e p j)"
proof -
  obtain r s' where run: "request_loop tr (build_request cfg m e p j) 3 [0..<3] s = (r, s')"
    by (cases "request_loop tr (build_request cfg m e p j) 3 [0..<3] s")
  from request_loop_counts[OF run] show ?thesis
    using run by (auto simp: make_request_def upt3)
qed

lemma make_request_first_passes:
  "tr (world s) (build_request cfg m e p j) = (Responded r, w) \<Longrightarrow> passes r \<Longrightarrow>
   make_request tr cfg m e p j 3 s =
     (Inr (body r),
      \<lparr>api_call_count = api_call_count s + 1, slept = slept s,
       sent = sent s @ [build_request cfg m e p j], world = w\<rparr>)"
  by (simp add: make_request_def upt3 try_body_passes)

lemma snd_update_deal_product_attachment:
  "snd (update_deal_product_attachment tr cfg deal att price qty cmts s)
     = snd (make_request tr cfg PUT
              (''deals/'' @ str_int deal @ ''/products/'' @ str_int att) []
              (Some (UpdateBody price qty cmts)) 3 s)"
  by (simp add: update_deal_product_attachment_def split: prod.splits sum.splits json_data.splits)

lemma snd_attach_product_to_deal:
  "snd (attach_product_to_deal tr cfg deal product price qty cmts s)
     = snd (make_request tr cfg POST (''deals/'' @ str_int deal @ ''/products'') []
              (Some (AttachBody product price qty (if truthy_str cmts then cmts else None))) 3 s)"
  by (simp add: attach_product_to_deal_def split: prod.splits sum.splits json_data.splits)

text \<open>
  C6.  Under duplicate policy update, when the change policy selects a field that differs
  (quantity: not equal; price: more than 0.01 apart), a real run makes one call of the
  attachment update: every request it sends (one per attempt of that call, three at
  most) is the same \<open>PUT\<close> whose body holds the selected changed fields and no other.
  When the first attempt is answered with success, that is the only request; the action
  is \<open>UPDATED_QUANTITY\<close> when the quantity was updated (alone or with the price) and
  \<open>UPDATED_PRICE\<close> otherwise, and it reports the old values of the existing
  attachment and the new values of the attachment the remote returns.  A dry run makes
  no call and reports the computed value for an updated field and the existing value
  for the other.
\<close>

theorem change_handler_single_partial_update:
  fixes tr :: "'w transport" and s :: "'w client"
  assumes da: "duplicate_attachment_action cfg = DA_UPDATE"
    and uq: "uq \<longleftrightarrow> (w2_change_action cfg = UPDATE_QUANTITY \<or> w2_change_action cfg = UPDATE_BOTH)
                    \<and> quantity existing \<noteq> qty"
    and up: "up \<longleftrightarrow> (w2_change_action cfg = UPDATE_PRICE \<or> w2_change_action cfg = UPDATE_BOTH)
                    \<and> \<bar>item_price existing - price\<bar> > 1 / 100"
    and some: "uq \<or> up"
    and req: "req = build_request cfg PUT
                      (''deals/'' @ str_int deal @ ''/products/'' @ str_int (a_id existing)) []
                      (Some (UpdateBody (if up then Some price else None)
                                        (if uq then Some qty else None) None))"
  shows "(\<exists>k. 1 \<le> k \<and> k \<le> 3
            \<and> sent (snd (handle_duplicate_attachment tr cfg company product existing qty price
                            deal False s))
                = sent s @ replicate k req)
      \<and> (tr (world s) req = (Responded r, w) \<and> passes r \<and> success (body r)
           \<and> data (body r) = JAttachment updated \<longrightarrow>
           handle_duplicate_attachment tr cfg company product existing qty price deal False s
             = (Inr \<lparr>company_name = company_legal_name company,
                     w2_count = w2_employee_count company,
                     action_type = (if uq then UPDATED_QUANTITY else UPDATED_PRICE),
                     act_product_id = Some (p_id product),
                     attachment_id = Some (a_id updated),
                     old_quantity = Some (quantity existing),
                     new_quantity = Some (quantity updated),
                     old_price = Some (item_price existing),
                     new_price = Some (item_price updated),
                     error_message = None\<rparr>,
                \<lparr>api_call_count = api_call_count s + 1, slept = slept s,
                 sent = sent s @ [req], world = w\<rparr>))
      \<and> handle_duplicate_attachment tr cfg company product existing qty price deal True s
             = (Inr \<lparr>company_name = company_legal_name company,
                     w2_count = w2_employee_count company,
                     action_type = (if uq then UPDATED_QUANTITY else UPDATED_PRICE),
                     act_product_id = Some (p_id product),
                     attachment_id = Some (a_id existing),
                     old_quantity = Some (quantity existing),
                     new_quantity = Some (if uq then qty else quantity existing),
                     old_price = Some (item_price existing),
                     new_price = Some (if up then price else item_price existing),
                     error_message = None\<rparr>, s)"
proof -
  have mismatch: "\<not> (quantity existing = qty \<and> \<bar>item_price existing - price\<bar> < 1 / 100)"
    using uq up some by auto
  have noskip: "w2_change_action cfg \<noteq> W2_SKIP"
    using uq up some by auto
  have real: "handle_duplicate_attachment tr cfg company product existing qty price deal False s
     = (case update_deal_product_attachment tr cfg deal (a_id existing)
                   (if up then Some price else None)
                   (if uq then Some qty else None) None s of
              (Inr updated_attachment, s') \<Rightarrow>
                (Inr ((new_action (company_legal_name company) (w2_employee_count company)
                         (updated_kind uq up))
                        \<lparr>act_product_id := Some (p_id product),
                         attachment_id := Some (a_id updated_attachment),
                         old_quantity := Some (quantity existing),
                         new_quantity := Some (quantity updated_attachment),
                         old_price := Some (item_price existing),
                         new_price := Some (item_price updated_attachment)\<rparr>), s')
            | (Inl e, s') \<Rightarrow>
                if isinstance_APIError e then
                  (Inr ((new_action (company_legal_name company) (w2_employee_count company)
                           ERROR)
                          \<lparr>act_product_id := Some (p_id product),
                           error_message :=
                             Some (''Failed to update attachment: '' @ str_error e)\<rparr>), s')
                else (Inl e, s'))"
    using mismatch some da uq up
    by (cases "w2_change_action cfg")
       (simp_all add: handle_duplicate_attachment_def update_attachment_def Let_def
          split: prod.splits sum.splits)
  have snd_eq: "snd (handle_duplicate_attachment tr cfg company product existing qty price deal False s)
     = snd (make_request tr cfg PUT
              (''deals/'' @ str_int deal @ ''/products/'' @ str_int (a_id existing)) []
              (Some (UpdateBody (if up then Some price else None)
                                        (if uq then Some qty else None) None)) 3 s)"
    unfolding real snd_update_deal_product_attachment[symmetric]
    by (simp split: prod.splits sum.splits)
  have part1: "\<exists>k. 1 \<le> k \<and> k \<le> 3
            \<and> sent (snd (handle_duplicate_attachment tr cfg company product existing qty price
                            deal False s))
                = sent s @ replicate k req"
    unfolding snd_eq req using make_request_counts by blast
  have part2: "handle_duplicate_attachment tr cfg company product existing qty price deal False s
             = (Inr \<lparr>company_name = company_legal_name company,
                     w2_count = w2_employee_count company,
                     action_type = (if uq then UPDATED_QUANTITY else UPDATED_PRICE),
                     act_product_id = Some (p_id product),
                     attachment_id = Some (a_id updated),
                     old_quantity = Some (quantity existing),
                     new_quantity = Some (quantity updated),
                     old_price = Some (item_price existing),
                     new_price = Some (item_price updated),
                     error_message = None\<rparr>,
                \<lparr>api_call_count = api_call_count s + 1, slept = slept s,
                 sent = sent s @ [req], world = w\<rparr>)"
    if "tr (world s) req = (Responded r, w)" "passes r" "success (body r)"
       "data (body r) = JAttachment updated"
  proof -
    have "make_request tr cfg PUT
            (''deals/'' @ str_int deal @ ''/products/'' @ str_int (a_id existing)) []
            (Some (UpdateBody (if up then Some price else None)
                              (if uq then Some qty else None) None)) 3 s
          = (Inr (body r),
             \<lparr>api_call_count = api_call_count s + 1, slept = slept s,
              sent = sent s @ [req], world = w\<rparr>)"
      unfolding req by (rule make_request_first_passes) (use that req in simp_all)
    then show ?thesis
      unfolding real update_deal_product_attachment_def
      using that some by (simp add: new_action_def updated_kind_def)
  qed
  have part3: "handle_duplicate_attachment tr cfg company product existing qty price deal True s
             = (Inr \<lparr>company_name = company_legal_name company,
                     w2_count = w2_employee_count company,
                     action_type = (if uq then UPDATED_QUANTITY else UPDATED_PRICE),
                     act_product_id = Some (p_id product),
                     attachment_id = Some (a_id existing),
                     old_quantity = Some (quantity existing),
                     new_quantity = Some (if uq then qty else quantity existing),
                     old_price = Some (item_price existing),
                     new_price = Some (if up then price else item_price existing),
                     error_message = None\<rparr>, s)"
    using mismatch some da uq up
    by (cases "w2_change_action cfg")
       (simp_all add: handle_duplicate_attachment_def update_attachment_def Let_def
          new_action_def updated_kind_def)
  show ?thesis using part1 part2 part3 by blast
qed


lemma str900: "str_int 900 = ''900''"
  by (simp add: str_int_def digit_char_def)

theorem change_handler_single_partial_update_witness:
  "handle_duplicate_attachment scripted (standard_profile\<lparr>w2_change_action := UPDATE_QUANTITY\<rparr>)
      acme acme_product (attachment_of 900 42 5 10) 12 5 7 False
      (fresh_client [http_answer 200 ''OK'' True (JAttachment (attachment_of 900 42 5 12))])
    = (Inr \<lparr>company_name = ''Acme'', w2_count = Some 50, action_type = UPDATED_QUANTITY,
            act_product_id = Some 42, attachment_id = Some 900, old_quantity = Some 10,
            new_quantity = Some 12, old_price = Some 5, new_price = Some 5,
            error_message = None\<rparr>,
       \<lparr>api_call_count = 1, slept = [],
        sent = [build_request (standard_profile\<lparr>w2_change_action := UPDATE_QUANTITY\<rparr>) PUT
                  ''deals/7/products/900'' [] (Some (UpdateBody None (Some 12) None))],
        world = []\<rparr>)
   \<and> handle_duplicate_attachment scripted standard_profile
      acme acme_product (attachment_of 900 42 5 10) 12 6 7 False
      (fresh_client [http_answer 200 ''OK'' True (JAttachment (attachment_of 900 42 6 12))])
    = (Inr \<lparr>company_name = ''Acme'', w2_count = Some 50, action_type = UPDATED_QUANTITY,
            act_product_id = Some 42, attachment_id = Some 900, old_quantity = Some 10,
            new_quantity = Some 12, old_price = Some 5, new_price = Some 6,
            error_message = None\<rparr>,
       \<lparr>api_call_count = 1, slept = [],
        sent = [build_request standard_profile PUT
                  ''deals/7/products/900'' [] (Some (UpdateBody (Some 6) (Some 12) None))],
        world = []\<rparr>)"
  using change_handler_single_partial_update[where cfg = "standard_profile\<lparr>w2_change_action := UPDATE_QUANTITY\<rparr>"
        and uq = True and up = False and existing = "attachment_of 900 42 5 10"
        and qty = 12 and price = 5 and deal = 7 and tr = scripted
        and s = "fresh_client [http_answer 200 ''OK'' True (JAttachment (attachment_of 900 42 5 12))]"
        and req = "build_request (standard_profile\<lparr>w2_change_action := UPDATE_QUANTITY\<rparr>) PUT
                  ''deals/7/products/900'' [] (Some (UpdateBody None (Some 12) None))"
        and r = "\<lparr>status_code = 200, reason = ''OK'',
                  body = \<lparr>success = True, data = JAttachment (attachment_of 900 42 5 12)\<rparr>\<rparr>"
        and w = "[]" and updated = "attachment_of 900 42 5 12"
        and company = acme and product = acme_product]
    change_handler_single_partial_update[where cfg = standard_profile
        and uq = True and up = True and existing = "attachment_of 900 42 5 10"
        and qty = 12 and price = 6 and deal = 7 and tr = scripted
        and s = "fresh_client [http_answer 200 ''OK'' True (JAttachment (attachment_of 900 42 6 12))]"
        and req = "build_request standard_profile PUT
                  ''deals/7/products/900'' [] (Some (UpdateBody (Some 6) (Some 12) None))"
        and r = "\<lparr>status_code = 200, reason = ''OK'',
                  body = \<lparr>success = True, data = JAttachment (attachment_of 900 42 6 12)\<rparr>\<rparr>"
        and w = "[]" and updated = "attachment_of 900 42 6 12"
        and company = acme and product = acme_product]
  by (simp add: standard_profile_def attachment_of_def str7 str900 scripted_def fresh_client_def
        http_answer_def passes_def acme_def acme_product_def)





section \<open>Dry run and real run\<close>







































end
